theory Spec2Isabelle
  imports Complex_Main
begin

section \<open>Numbers, errors and constants\<close>

text \<open>
  The calculator works on Python numbers. The form's dimension and weight inputs are
  Python floats, the nesting counts are Python ints. Integers are modelled as \<open>int\<close>;
  the float-valued quantities are modelled as exact rationals, so every finite float is
  a value of the model while the rounding, infinities and NaN of IEEE arithmetic are
  outside of it. The only exception the arithmetic of the modelled code can raise on
  rationals is the division by zero.
\<close>

datatype py_error = ZeroDivisionError

type_synonym dims = "rat \<times> rat \<times> rat"
type_synonym config = "int \<times> int \<times> int"

definition MAX_SIDE_MM :: int where
  "MAX_SIDE_MM = 600"

definition PALLET_LENGTH_MM :: int where
  "PALLET_LENGTH_MM = 1219"

definition PALLET_WIDTH_MM :: int where
  "PALLET_WIDTH_MM = 1016"

definition PALLET_HEIGHT_MM :: int where
  "PALLET_HEIGHT_MM = 1800"

definition PALLET_BASE_HEIGHT_MM :: int where
  "PALLET_BASE_HEIGHT_MM = 148"

definition USABLE_HEIGHT_MM :: int where
  "USABLE_HEIGHT_MM = PALLET_HEIGHT_MM - PALLET_BASE_HEIGHT_MM"

text \<open>
  Python's \<^verbatim>\<open>a // b\<close> (the floor of the quotient, still a float when an operand is one),
  \<^verbatim>\<open>a / b\<close> and \<^verbatim>\<open>int(q)\<close> (truncation towards zero). Both divisions raise
  \<^verbatim>\<open>ZeroDivisionError\<close> on a zero divisor.
\<close>

definition py_floordiv :: "rat \<Rightarrow> rat \<Rightarrow> py_error + rat" where
  "py_floordiv a b = (if b = 0 then Inl ZeroDivisionError else Inr (of_int \<lfloor>a / b\<rfloor>))"

definition py_truediv :: "rat \<Rightarrow> rat \<Rightarrow> py_error + rat" where
  "py_truediv a b = (if b = 0 then Inl ZeroDivisionError else Inr (a / b))"

definition py_int :: "rat \<Rightarrow> int" where
  "py_int q = (if 0 \<le> q then \<lfloor>q\<rfloor> else \<lceil>q\<rceil>)"

section \<open>Unit conversion\<close>

definition mm_to_in :: "rat \<Rightarrow> rat" where
  "mm_to_in mm = mm / 25.4"

definition in_to_mm :: "rat \<Rightarrow> rat" where
  "in_to_mm inch = inch * 25.4"

definition kg_to_lb :: "rat \<Rightarrow> rat" where
  "kg_to_lb kg = kg * 2.20462"

definition lb_to_kg :: "rat \<Rightarrow> rat" where
  "lb_to_kg lb = lb / 2.20462"

definition convert_inputs :: "rat \<Rightarrow> rat \<Rightarrow> rat \<Rightarrow> rat \<Rightarrow> string \<Rightarrow> rat \<times> rat \<times> rat \<times> rat" where
  "convert_inputs length' width height weight unit_system =
     (if unit_system = ''imperial''
      then (in_to_mm length', in_to_mm width, in_to_mm height, lb_to_kg weight)
      else (length', width, height, weight))"

section \<open>Stacking and wrapping\<close>

text \<open>\<^verbatim>\<open>calculate_dimensions(config, dims)\<close>: each axis of the base box times its count.\<close>

fun calculate_dimensions :: "config \<Rightarrow> dims \<Rightarrow> dims" where
  "calculate_dimensions (x, y, z) (d0, d1, d2) = (d0 * of_int x, d1 * of_int y, d2 * of_int z)"

text \<open>
  The source has no function for the wrapping by material: the submit handler adds
  \<^verbatim>\<open>2*thickness\<close> to each axis in place. \<open>inflate\<close> is the operation as the specification
  words it ("returns each axis plus 2 \<times> thickness"), to be compared with what the handler
  computes.
\<close>

fun inflate :: "dims \<Rightarrow> rat \<Rightarrow> dims" where
  "inflate (l, w, h) thickness = (l + 2 * thickness, w + 2 * thickness, h + 2 * thickness)"

section \<open>Pallet calculation\<close>

text \<open>
  \<^verbatim>\<open>
  def pallet_fit(outer_L, outer_W, outer_H):
      per_layer = int(PALLET_LENGTH_MM // outer_L) * int(PALLET_WIDTH_MM // outer_W)
      layers = USABLE_HEIGHT_MM / outer_H
      return per_layer, int(layers), per_layer * int(layers)
  \<close>
\<close>

definition pallet_fit :: "rat \<Rightarrow> rat \<Rightarrow> rat \<Rightarrow> py_error + (int \<times> int \<times> int)" where
  "pallet_fit outer_L outer_W outer_H =
     (case py_floordiv (of_int PALLET_LENGTH_MM) outer_L of
        Inl e \<Rightarrow> Inl e
      | Inr ql \<Rightarrow>
          (case py_floordiv (of_int PALLET_WIDTH_MM) outer_W of
             Inl e \<Rightarrow> Inl e
           | Inr qw \<Rightarrow>
               (let per_layer = py_int ql * py_int qw in
                case py_truediv (of_int USABLE_HEIGHT_MM) outer_H of
                  Inl e \<Rightarrow> Inl e
                | Inr layers \<Rightarrow> Inr (per_layer, py_int layers, per_layer * py_int layers))))"

section \<open>Stacking configurations offered by the form\<close>

text \<open>
  \<^verbatim>\<open>range(a, b)\<close> on ints and \<^verbatim>\<open>itertools.product(xs, repeat=3)\<close>, whose triples come in
  lexicographic order, the last component running fastest.
\<close>

definition py_range :: "int \<Rightarrow> int \<Rightarrow> int list" where
  "py_range a b = [a..b - 1]"

definition product3 :: "'a list \<Rightarrow> ('a \<times> 'a \<times> 'a) list" where
  "product3 xs = List.product xs (List.product xs xs)"

text \<open>
  \<^verbatim>\<open>
  possible_inner_configs = [cfg for cfg in product(range(1, units_per_inner+1), repeat=3)
                            if cfg[0]*cfg[1]*cfg[2] == units_per_inner]
  possible_outer_configs = [cfg for cfg in product(range(1, inners_per_outer+1), repeat=3)
                            if cfg[0]*cfg[1]*cfg[2] == inners_per_outer]
  \<close>
  The counts come from integer number inputs, so the comprehension runs on ints and has
  no raising path.
\<close>

definition possible_inner_configs :: "int \<Rightarrow> config list" where
  "possible_inner_configs units_per_inner =
     filter (\<lambda>cfg. fst cfg * fst (snd cfg) * snd (snd cfg) = units_per_inner)
       (product3 (py_range 1 (units_per_inner + 1)))"

definition possible_outer_configs :: "int \<Rightarrow> config list" where
  "possible_outer_configs inners_per_outer =
     filter (\<lambda>cfg. fst cfg * fst (snd cfg) * snd (snd cfg) = inners_per_outer)
       (product3 (py_range 1 (inners_per_outer + 1)))"

section \<open>The submit handler\<close>

text \<open>
  The values the handler computes between the conversion of the inputs and the call of
  \<^verbatim>\<open>pallet_fit\<close>, which are the ones it then displays.
\<close>

record packaging_result =
  inner_dims :: dims
  outer_dims :: dims
  inner_weight :: rat
  outer_weight :: rat
  per_layer :: int
  layers :: int
  total_cartons :: int
  total_units_per_pallet :: int

text \<open>
  \<^verbatim>\<open>
  length, width, height, weight = convert_inputs(length, width, height, weight, unit_system)
  inner_L, inner_W, inner_H = calculate_dimensions(inner_config, (length, width, height))
  inner_dims = (inner_L + 2*inner_thickness, inner_W + 2*inner_thickness, inner_H + 2*inner_thickness)
  outer_L, outer_W, outer_H = calculate_dimensions(outer_config, inner_dims)
  outer_dims = (outer_L + 2*outer_thickness, outer_W + 2*outer_thickness, outer_H + 2*outer_thickness)
  inner_weight = weight * units_per_inner
  outer_weight = inner_weight * inners_per_outer
  per_layer, layers, total_cartons = pallet_fit(*outer_dims)
  total_units_per_pallet = total_cartons * units_per_inner * inners_per_outer
  \<close>
  The handler checks none of its inputs; an exception of \<^verbatim>\<open>pallet_fit\<close> ends it.
\<close>

definition submit :: "rat \<Rightarrow> rat \<Rightarrow> rat \<Rightarrow> rat \<Rightarrow> string \<Rightarrow> int \<Rightarrow> int \<Rightarrow> config \<Rightarrow> config
    \<Rightarrow> rat \<Rightarrow> rat \<Rightarrow> py_error + packaging_result" where
  "submit length' width height weight unit_system units_per_inner inners_per_outer
      inner_config outer_config inner_thickness outer_thickness =
     (case convert_inputs length' width height weight unit_system of
        (length_mm, width_mm, height_mm, weight_kg) \<Rightarrow>
     (case calculate_dimensions inner_config (length_mm, width_mm, height_mm) of
        (inner_L, inner_W, inner_H) \<Rightarrow>
     (let inner_dims' = (inner_L + 2 * inner_thickness, inner_W + 2 * inner_thickness,
                         inner_H + 2 * inner_thickness) in
      case calculate_dimensions outer_config inner_dims' of
        (outer_L, outer_W, outer_H) \<Rightarrow>
     (let outer_dims' = (outer_L + 2 * outer_thickness, outer_W + 2 * outer_thickness,
                         outer_H + 2 * outer_thickness);
          inner_weight' = weight_kg * of_int units_per_inner;
          outer_weight' = inner_weight' * of_int inners_per_outer
      in case pallet_fit (fst outer_dims') (fst (snd outer_dims')) (snd (snd outer_dims')) of
           Inl e \<Rightarrow> Inl e
         | Inr (per_layer', layers', total_cartons') \<Rightarrow>
             Inr \<lparr>inner_dims = inner_dims', outer_dims = outer_dims',
                  inner_weight = inner_weight', outer_weight = outer_weight',
                  per_layer = per_layer', layers = layers', total_cartons = total_cartons',
                  total_units_per_pallet =
                    total_cartons' * units_per_inner * inners_per_outer\<rparr>))))"

section \<open>Auxiliary facts\<close>

subsection \<open>Python arithmetic\<close>

lemma floor_divide_rat_numeral:
  "\<lfloor>(numeral a :: rat) / numeral b\<rfloor> = numeral a div numeral b"
  by (metis floor_divide_of_int_eq of_int_numeral)

lemma py_int_of_int: "py_int (of_int k) = k"
  by (simp add: py_int_def)

lemma py_int_nonneg: "0 \<le> q \<Longrightarrow> py_int q = \<lfloor>q\<rfloor>"
  by (simp add: py_int_def)



subsection \<open>The pallet calculation in closed form\<close>

lemmas pallet_constants = PALLET_LENGTH_MM_def PALLET_WIDTH_MM_def USABLE_HEIGHT_MM_def
  PALLET_HEIGHT_MM_def PALLET_BASE_HEIGHT_MM_def

lemma fit_closed_form:
  "pallet_fit L W H =
     (if L = 0 \<or> W = 0 \<or> H = 0 then Inl ZeroDivisionError
      else Inr (\<lfloor>1219 / L\<rfloor> * \<lfloor>1016 / W\<rfloor>, py_int (1652 / H),
                \<lfloor>1219 / L\<rfloor> * \<lfloor>1016 / W\<rfloor> * py_int (1652 / H)))"
  by (simp add: pallet_fit_def py_floordiv_def py_truediv_def py_int_of_int pallet_constants
      Let_def)

lemma fit_on_positive:
  assumes "0 < L" "0 < W" "0 < H"
  shows "pallet_fit L W H =
     Inr (\<lfloor>1219 / L\<rfloor> * \<lfloor>1016 / W\<rfloor>, \<lfloor>1652 / H\<rfloor>,
          \<lfloor>1219 / L\<rfloor> * \<lfloor>1016 / W\<rfloor> * \<lfloor>1652 / H\<rfloor>)"
  using assms by (simp add: fit_closed_form py_int_nonneg)

subsection \<open>The enumeration of stacking configurations\<close>

lemma set_py_range: "set (py_range a b) = {k. a \<le> k \<and> k < b}"
  by (auto simp add: py_range_def)

lemma distinct_py_range: "distinct (py_range a b)"
  by (simp add: py_range_def)

lemma set_product3:
  "set (product3 xs) = {(x, y, z). x \<in> set xs \<and> y \<in> set xs \<and> z \<in> set xs}"
  by (auto simp add: product3_def)

lemma distinct_product3: "distinct xs \<Longrightarrow> distinct (product3 xs)"
  by (simp add: product3_def distinct_product)

text \<open>Each of three positive factors is at most their product, so the scan of
  \<open>[1, N]\<^sup>3\<close> misses no factorisation.\<close>

lemma factor_le_product:
  fixes x y z :: int
  assumes "0 < x" "0 < y" "0 < z"
  shows "x \<le> x * y * z" "y \<le> x * y * z" "z \<le> x * y * z"
proof -
  have yz: "1 \<le> y * z" and xz: "1 \<le> x * z" and xy: "1 \<le> x * y"
    using assms by (simp_all add: int_one_le_iff_zero_less)
  show "x \<le> x * y * z"
    using mult_left_mono [OF yz, of x] assms by (simp add: mult.assoc)
  show "y \<le> x * y * z"
    using mult_left_mono [OF xz, of y] assms by (simp add: mult.assoc mult.left_commute)
  show "z \<le> x * y * z"
    using mult_left_mono [OF xy, of z] assms by (simp add: mult.commute)
qed

lemma set_inner_configs:
  "set (possible_inner_configs N) = {(x, y, z). 0 < x \<and> 0 < y \<and> 0 < z \<and> x * y * z = N}"
proof -
  have "(x, y, z) \<in> set (possible_inner_configs N)
          \<longleftrightarrow> 0 < x \<and> 0 < y \<and> 0 < z \<and> x * y * z = N" for x y z
    using factor_le_product [of x y z]
    by (auto simp add: possible_inner_configs_def set_product3 set_py_range)
  then show ?thesis
    by auto
qed

lemma distinct_inner_configs: "distinct (possible_inner_configs N)"
  by (simp add: possible_inner_configs_def distinct_product3 distinct_py_range)

lemma outer_configs_eq: "possible_outer_configs N = possible_inner_configs N"
  by (simp add: possible_outer_configs_def possible_inner_configs_def)

lemma upto_1_1: "[1..(1::int)] = [1]"
  by (simp add: upto.simps)


subsection \<open>The submit handler in terms of stacking and wrapping\<close>

lemma submit_eq:
  "submit l w h wt us upi ipo ic oc it ot =
     (case convert_inputs l w h wt us of
        (lm, wm, hm, wk) \<Rightarrow>
          (let idims = inflate (calculate_dimensions ic (lm, wm, hm)) it;
               odims = inflate (calculate_dimensions oc idims) ot
           in case pallet_fit (fst odims) (fst (snd odims)) (snd (snd odims)) of
                Inl e \<Rightarrow> Inl e
              | Inr (p, ly, tc) \<Rightarrow>
                  Inr \<lparr>inner_dims = idims, outer_dims = odims,
                       inner_weight = wk * of_int upi,
                       outer_weight = wk * of_int upi * of_int ipo,
                       per_layer = p, layers = ly, total_cartons = tc,
                       total_units_per_pallet = tc * upi * ipo\<rparr>))"
  by (cases ic; cases oc) (simp add: submit_def Let_def split: prod.splits sum.splits)

section \<open>The pallet calculation\<close>








section \<open>The enumeration of stacking configurations\<close>

text \<open>
  Claim C4: for every positive integer \<open>N\<close> the configurations offered for the count \<open>N\<close>
  are exactly the ordered triples \<open>(x, y, z)\<close> of positive integers with \<open>x * y * z = N\<close>:
  each listed triple has that product, none with that product is missing, none is listed
  twice (so the length of the list is the number of such triples), and the inner and the
  outer list are built the same way. For \<open>N = 1\<close> the list is \<open>[(1, 1, 1)]\<close>.
\<close>

theorem possible_configs_exact:
  "(0 < N \<longrightarrow>
      set (possible_inner_configs N) = {(x, y, z). 0 < x \<and> 0 < y \<and> 0 < z \<and> x * y * z = N}
      \<and> distinct (possible_inner_configs N)
      \<and> length (possible_inner_configs N)
            = card {(x, y, z). 0 < x \<and> 0 < y \<and> 0 < z \<and> x * y * z = N}
      \<and> possible_outer_configs N = possible_inner_configs N)
   \<and> possible_inner_configs 1 = [(1, 1, 1)]
   \<and> possible_outer_configs 1 = [(1, 1, 1)]"
proof -
  have one: "possible_inner_configs 1 = [(1, 1, 1)]"
    by (simp add: possible_inner_configs_def product3_def py_range_def upto_1_1)
  have "length (possible_inner_configs N) = card (set (possible_inner_configs N))"
    by (simp add: distinct_card distinct_inner_configs)
  then show ?thesis
    using one by (simp add: set_inner_configs distinct_inner_configs outer_configs_eq)
qed

theorem possible_configs_exact_witness:
  "(0::int) < 4
   \<and> set (possible_inner_configs 4) = {(x, y, z). 0 < x \<and> 0 < y \<and> 0 < z \<and> x * y * z = 4}
   \<and> distinct (possible_inner_configs 4)
   \<and> possible_outer_configs 4 = possible_inner_configs 4"
  using possible_configs_exact [of 4] by simp




section \<open>Stacking, wrapping and the submit handler\<close>


text \<open>
  Claim C2: the scenario of a 100 x 80 x 50 mm unit of 0.5 kg, 4 units per inner case
  stacked (2, 2, 1), 2 inners per outer case stacked (2, 1, 1), inner thickness 3 mm and
  outer thickness 4 mm. The stacked units measure (200, 160, 50), the inner case
  (206, 166, 56) and 2 kg, the stacked inners (412, 166, 56), the outer case
  (420, 174, 64) and 4 kg; the pallet takes 10 cartons per layer in 25 layers, 250 cartons
  and 2000 units.
\<close>

theorem scenario_100_80_50:
  "calculate_dimensions (2, 2, 1) (100, 80, 50) = (200, 160, 50)
   \<and> calculate_dimensions (2, 1, 1) (206, 166, 56) = (412, 166, 56)
   \<and> pallet_fit 420 174 64 = Inr (10, 25, 250)
   \<and> submit 100 80 50 0.5 ''metric'' 4 2 (2, 2, 1) (2, 1, 1) 3 4 =
       Inr \<lparr>inner_dims = (206, 166, 56), outer_dims = (420, 174, 64),
            inner_weight = 2, outer_weight = 4,
            per_layer = 10, layers = 25, total_cartons = 250,
            total_units_per_pallet = 2000\<rparr>"
  by (simp add: submit_eq convert_inputs_def fit_on_positive floor_divide_rat_numeral)




text \<open>
  Claim C7: stacking and wrapping do not commute, as the stacking (2, 1, 1) of the box
  (100, 80, 50) with thickness 3 shows, and the handler stacks before it wraps at both
  levels: the inner case is the wrapped stack of units, the outer case the wrapped stack
  of inner cases.
\<close>

theorem compose_before_inflate:
  "(\<exists>f d t. 0 < t \<and> inflate (calculate_dimensions f d) t \<noteq> calculate_dimensions f (inflate d t))
   \<and> (submit l w h wt us upi ipo ic oc it ot = Inr r \<longrightarrow>
        (\<exists>lm wm hm wk. convert_inputs l w h wt us = (lm, wm, hm, wk)
           \<and> inner_dims r = inflate (calculate_dimensions ic (lm, wm, hm)) it
           \<and> outer_dims r = inflate (calculate_dimensions oc (inner_dims r)) ot))"
proof
  have "inflate (calculate_dimensions (2, 1, 1) (100, 80, 50)) 3
          \<noteq> calculate_dimensions (2, 1, 1) (inflate (100, 80, 50) 3)"
    by simp
  then show "\<exists>f d t. 0 < t
      \<and> inflate (calculate_dimensions f d) t \<noteq> calculate_dimensions f (inflate d t)"
    by (intro exI [of _ "(2, 1, 1)"] exI [of _ "(100, 80, 50)"] exI [of _ 3]) simp
next
  show "submit l w h wt us upi ipo ic oc it ot = Inr r \<longrightarrow>
        (\<exists>lm wm hm wk. convert_inputs l w h wt us = (lm, wm, hm, wk)
           \<and> inner_dims r = inflate (calculate_dimensions ic (lm, wm, hm)) it
           \<and> outer_dims r = inflate (calculate_dimensions oc (inner_dims r)) ot)"
    by (auto simp add: submit_eq Let_def split: prod.splits sum.splits)
qed

theorem compose_before_inflate_witness:
  "\<exists>r. submit 10 8 5 1 ''metric'' 6 3 (3, 2, 1) (1, 1, 3) 2 5 = Inr r
      \<and> inner_dims r = inflate (calculate_dimensions (3, 2, 1) (10, 8, 5)) 2
      \<and> outer_dims r = inflate (calculate_dimensions (1, 1, 3) (inner_dims r)) 5
      \<and> inner_dims r = (34, 20, 9) \<and> outer_dims r = (44, 30, 37)"
proof -
  have run: "submit 10 8 5 1 ''metric'' 6 3 (3, 2, 1) (1, 1, 3) 2 5 =
     Inr \<lparr>inner_dims = (34, 20, 9), outer_dims = (44, 30, 37),
          inner_weight = 6, outer_weight = 18,
          per_layer = 891, layers = 44, total_cartons = 39204,
          total_units_per_pallet = 705672\<rparr>"
    by (simp add: submit_eq convert_inputs_def fit_on_positive floor_divide_rat_numeral)
  show ?thesis
    using compose_before_inflate [where l = 10 and w = 8 and h = 5 and wt = 1
        and us = "''metric''" and upi = 6 and ipo = 3 and ic = "(3, 2, 1)"
        and oc = "(1, 1, 3)" and it = 2 and ot = 5] run
    by (simp add: convert_inputs_def)
qed

text \<open>
  Claim C8: the weights are purely multiplicative. With \<open>wk\<close> the unit weight in kg (the
  weight as entered, unless the unit system is imperial), a run of the handler gives the
  inner weight \<open>wk * units_per_inner\<close> and the outer weight
  \<open>inner_weight * inners_per_outer = wk * units_per_inner * inners_per_outer\<close>; nothing is
  added for the material.
\<close>

theorem weights_multiplicative:
  assumes "submit l w h wt us upi ipo ic oc it ot = Inr r"
  shows "\<exists>lm wm hm wk. convert_inputs l w h wt us = (lm, wm, hm, wk)
           \<and> (us \<noteq> ''imperial'' \<longrightarrow> wk = wt)
           \<and> inner_weight r = wk * of_int upi
           \<and> outer_weight r = inner_weight r * of_int ipo
           \<and> outer_weight r = wk * of_int upi * of_int ipo"
  using assms
  by (auto simp add: submit_eq Let_def convert_inputs_def split: prod.splits sum.splits if_splits)

theorem weights_multiplicative_witness:
  "\<exists>r. submit 120 60 40 1.5 ''metric'' 8 3 (2, 2, 2) (3, 1, 1) 3 7 = Inr r
      \<and> inner_weight r = 1.5 * 8 \<and> outer_weight r = inner_weight r * 3
      \<and> outer_weight r = 36"
proof -
  have run: "submit 120 60 40 1.5 ''metric'' 8 3 (2, 2, 2) (3, 1, 1) 3 7 =
     Inr \<lparr>inner_dims = (246, 126, 86), outer_dims = (752, 140, 100),
          inner_weight = 12, outer_weight = 36,
          per_layer = 7, layers = 16, total_cartons = 112,
          total_units_per_pallet = 2688\<rparr>"
    by (simp add: submit_eq convert_inputs_def fit_on_positive floor_divide_rat_numeral)
  show ?thesis
    using weights_multiplicative [OF run] run by (simp add: convert_inputs_def)
qed

end
